theory Spec2Isabelle
  imports Main "HOL-Library.Sublist"
begin

section \<open>JavaScript strings as the source uses them\<close>

text \<open>
  A string is a list of characters, read as the code units U+0000..U+00FF. The
  helpers below are the methods of the host's string type that
  \<^verbatim>\<open>ConstraintGenerator.ts\<close> calls, with their out-of-range behaviour written out:
  \<^verbatim>\<open>charAt\<close> gives the empty string past the end, indexing gives \<^verbatim>\<open>undefined\<close>
  (here \<open>None\<close>), \<^verbatim>\<open>substring\<close> clamps both indices and swaps them when the first
  is the larger.
\<close>

definition charAt :: "string \<Rightarrow> nat \<Rightarrow> string" where
  "charAt s i = take 1 (drop i s)"

definition charIndex :: "string \<Rightarrow> nat \<Rightarrow> char option" where
  "charIndex s i = (if i < length s then Some (s ! i) else None)"

definition substring :: "string \<Rightarrow> nat \<Rightarrow> nat \<Rightarrow> string" where
  "substring s a b =
     (let a' = min a (length s); b' = min b (length s);
          lo = min a' b'; hi = max a' b'
      in take (hi - lo) (drop lo s))"

definition substringFrom :: "string \<Rightarrow> nat \<Rightarrow> string" where
  "substringFrom s a = drop a s"

definition startsWith :: "string \<Rightarrow> string \<Rightarrow> bool" where
  "startsWith s p = (take (length p) s = p)"

definition endsWith :: "string \<Rightarrow> string \<Rightarrow> bool" where
  "endsWith s p = (length p \<le> length s \<and> drop (length s - length p) s = p)"

definition includesChar :: "string \<Rightarrow> char \<Rightarrow> bool" where
  "includesChar s c = (c \<in> set s)"

text \<open>\<^verbatim>\<open>indexOf\<close> of a single character: the first position, or \<open>None\<close> for \<open>-1\<close>.\<close>

definition indexOfChar :: "string \<Rightarrow> char \<Rightarrow> nat option" where
  "indexOfChar s c = find (\<lambda>i. s ! i = c) [0..<length s]"

text \<open>The regular-expression classes \<^verbatim>\<open>\s\<close>, \<^verbatim>\<open>\w\<close> and \<^verbatim>\<open>[0-9]\<close> on one character.\<close>

definition isSpaceChar :: "char \<Rightarrow> bool" where
  "isSpaceChar c = (c \<in> set [CHR 0x20, CHR 0x09, CHR 0x0A, CHR 0x0B, CHR 0x0C, CHR 0x0D, CHR 0xA0])"

definition isDigitChar :: "char \<Rightarrow> bool" where
  "isDigitChar c = (c \<in> set ''0123456789'')"

definition isWordChar :: "char \<Rightarrow> bool" where
  "isWordChar c =
     (c \<in> set ''abcdefghijklmnopqrstuvwxyzABCDEFGHIJKLMNOPQRSTUVWXYZ0123456789_'')"


definition matchWord :: "string \<Rightarrow> bool" where
  "matchWord s = list_ex isWordChar s"

definition matchWordOrDot :: "string \<Rightarrow> bool" where
  "matchWordOrDot s = list_ex (\<lambda>c. isWordChar c \<or> c = CHR ''.'') s"

definition matchDigitOrDot :: "string \<Rightarrow> bool" where
  "matchDigitOrDot s = list_ex (\<lambda>c. isDigitChar c \<or> c = CHR ''.'') s"

text \<open>\<^verbatim>\<open>data.replace(/\s/g, '')\<close> and \<^verbatim>\<open>trim()\<close>.\<close>

definition stripSpaces :: "string \<Rightarrow> string" where
  "stripSpaces s = filter (\<lambda>c. \<not> isSpaceChar c) s"

definition trim :: "string \<Rightarrow> string" where
  "trim s = rev (dropWhile isSpaceChar (rev (dropWhile isSpaceChar s)))"

section \<open>Errors\<close>

text \<open>
  The source throws \<^verbatim>\<open>Error(message)\<close>; the host throws a \<^verbatim>\<open>TypeError\<close> when a
  property of \<^verbatim>\<open>undefined\<close> is read or something that is no function is called. Every
  throw is a value \<open>Inl\<close> of the result. \<open>OutsideModel\<close> is no error of the program:
  it marks a computation whose value the model of numbers below cannot hold.
\<close>

datatype error = Error string | TypeError string | OutsideModel string

section \<open>Grammar constants (class Symbols)\<close>

abbreviation (input) COND_SEPARATOR :: string where "COND_SEPARATOR \<equiv> '':''"
abbreviation (input) STRING_SYMBOL :: string where "STRING_SYMBOL \<equiv> [CHR 0x27]"
abbreviation (input) MODEL_PREFIX :: char where "MODEL_PREFIX \<equiv> CHR ''$''"
abbreviation (input) STATE_PREFIX :: char where "STATE_PREFIX \<equiv> CHR ''#''"

definition OPERATOR_START :: "char list" where
  "OPERATOR_START = map hd [''<'', ''<='', ''=='', ''!='', ''>='', ''>'', ''+'', ''-'', ''*'',
     ''/'', ''%'', ''('', '')'', ''&&'', ''||'']"

section \<open>Function registry\<close>

text \<open>
  \<^verbatim>\<open>customFunctions\<close> is the only mutable field of the class. \<^verbatim>\<open>registerFunction\<close>
  is modelled by state passing: it returns the outcome and the registry after the call.
\<close>

type_synonym registry = "string list"

definition registerFunction :: "registry \<Rightarrow> string \<Rightarrow> (error + unit) \<times> registry" where
  "registerFunction customFunctions name =
     (if name \<in> set customFunctions
      then (Inl (Error (''Function with name '' @ name @ '' is already registered'')), customFunctions)
      else (Inr (), customFunctions @ [name]))"

section \<open>Splitting an assertion into activation and condition\<close>

definition isCharWithinString :: "string \<Rightarrow> nat \<Rightarrow> bool" where
  "isCharWithinString srcString i =
     (if i = 0 \<or> Suc i = length srcString \<or> charAt srcString i = STRING_SYMBOL then False
      else odd (length (filter (\<lambda>j. charAt srcString j = STRING_SYMBOL)
                          [Suc i..<length srcString])))"

definition getSplitTokens :: "string \<Rightarrow> error + string list" where
  "getSplitTokens srcString =
     (case find (\<lambda>i. charAt srcString i = COND_SEPARATOR \<and> \<not> isCharWithinString srcString i)
                [0..<length srcString] of
        None \<Rightarrow> Inl (Error (''Invalid syntax for token: '' @ srcString))
      | Some splitIndex \<Rightarrow>
          Inr [substring srcString 0 splitIndex, substringFrom srcString (splitIndex + 1)])"

text \<open>
  The claim's words, for comparison with the loop above: a split point is the first
  colon that the within-string check does not place inside a literal.
\<close>

definition isSplitPoint :: "string \<Rightarrow> nat \<Rightarrow> bool" where
  "isSplitPoint s i =
     (i < length s \<and> s ! i = CHR '':'' \<and> \<not> isCharWithinString s i \<and>
      list_all (\<lambda>j. \<not> (s ! j = CHR '':'' \<and> \<not> isCharWithinString s j)) [0..<i])"



section \<open>Token classes\<close>

definition isFunctionToken :: "registry \<Rightarrow> string \<Rightarrow> bool" where
  "isFunctionToken customFunctions token =
     list_ex (\<lambda>functionName. startsWith token functionName) customFunctions"

definition isStatementToken :: "registry \<Rightarrow> string \<Rightarrow> bool" where
  "isStatementToken customFunctions token =
     (isFunctionToken customFunctions token \<and>
      \<not> includesChar token (CHR ''('') \<and> \<not> includesChar token (CHR '')''))"

text \<open>
  \<^verbatim>\<open>isNumberString\<close> tests \<^verbatim>\<open>string.match(/[+-]?([0-9]*[.])?[0-9]+/)\<close>. The expression has
  no anchors, so the test succeeds when some substring matches the pattern as a whole.
\<close>

definition matchesNumberPattern :: "string \<Rightarrow> bool" where
  "matchesNumberPattern s =
     (let r = (case s of [] \<Rightarrow> s | c # t \<Rightarrow> if c = CHR ''+'' \<or> c = CHR ''-'' then t else s);
          ds = takeWhile isDigitChar r;
          rest = dropWhile isDigitChar r
      in (rest = [] \<and> ds \<noteq> []) \<or>
         (case rest of [] \<Rightarrow> False | c # t \<Rightarrow> c = CHR ''.'' \<and> t \<noteq> [] \<and> list_all isDigitChar t))"

definition isNumberString :: "string \<Rightarrow> bool" where
  "isNumberString s =
     list_ex (\<lambda>i. list_ex (\<lambda>j. matchesNumberPattern (substring s i j)) [Suc i..<Suc (length s)])
       [0..<length s]"

definition isString :: "string \<Rightarrow> bool" where
  "isString s = (startsWith s STRING_SYMBOL \<and> endsWith s STRING_SYMBOL \<and> \<not> includesChar s (CHR 0x60))"

definition isModelVariable :: "string \<Rightarrow> bool" where
  "isModelVariable s = startsWith s [MODEL_PREFIX]"

definition isStateVariable :: "string \<Rightarrow> bool" where
  "isStateVariable s = startsWith s [STATE_PREFIX]"

section \<open>String replacement\<close>

text \<open>
  \<^verbatim>\<open>str.replace(pattern, replacement)\<close> with a string pattern replaces the first occurrence.
  The host expands \<^verbatim>\<open>$$\<close>, \<^verbatim>\<open>$&\<close>, \<^verbatim>\<open>$`\<close> and \<^verbatim>\<open>$'\<close> in the replacement text; with a
  string pattern there are no capture groups, so every other \<^verbatim>\<open>$\<close> stays as it is.
\<close>

definition indexOf :: "string \<Rightarrow> string \<Rightarrow> nat option" where
  "indexOf s pat = find (\<lambda>i. startsWith (drop i s) pat) [0..<Suc (length s)]"

fun getSubstitution :: "string \<Rightarrow> string \<Rightarrow> string \<Rightarrow> string \<Rightarrow> string" where
  "getSubstitution matched preceding following [] = []"
| "getSubstitution matched preceding following [c] = [c]"
| "getSubstitution matched preceding following (c # d # r) =
     (if c = CHR ''$'' \<and> d = CHR ''$'' then CHR ''$'' # getSubstitution matched preceding following r
      else if c = CHR ''$'' \<and> d = CHR ''&'' then matched @ getSubstitution matched preceding following r
      else if c = CHR ''$'' \<and> d = CHR 0x60 then preceding @ getSubstitution matched preceding following r
      else if c = CHR ''$'' \<and> d = CHR 0x27 then following @ getSubstitution matched preceding following r
      else c # getSubstitution matched preceding following (d # r))"

definition replaceFirst :: "string \<Rightarrow> string \<Rightarrow> string \<Rightarrow> string" where
  "replaceFirst s pat replacement =
     (case indexOf s pat of
        None \<Rightarrow> s
      | Some i \<Rightarrow>
          (let preceding = take i s; following = drop (i + length pat) s
           in preceding @ getSubstitution pat preceding following replacement @ following))"

section \<open>Function tokens\<close>

text \<open>
  \<^verbatim>\<open>getSubstringWithinParentheses\<close>: the scan starts after the first opening bracket (at 0
  when there is none) and stops at the first closing bracket at depth 0. The counter of
  opened brackets is never negative, so the \<^verbatim>\<open>throw\<close> in the last branch of the source
  cannot be reached and the function always returns.
\<close>

fun closingScan :: "string \<Rightarrow> nat \<Rightarrow> nat \<Rightarrow> nat option" where
  "closingScan [] i numBracketsOpened = None"
| "closingScan (c # cs) i numBracketsOpened =
     (if c = CHR ''('' then closingScan cs (Suc i) (Suc numBracketsOpened)
      else if c = CHR '')'' then
        (if numBracketsOpened > 0 then closingScan cs (Suc i) (numBracketsOpened - 1)
         else Some i)
      else closingScan cs (Suc i) numBracketsOpened)"

definition getSubstringWithinParentheses :: "string \<Rightarrow> string" where
  "getSubstringWithinParentheses srcString =
     (let bracketStart = (case indexOfChar srcString (CHR ''('') of None \<Rightarrow> 0 | Some k \<Rightarrow> k + 1);
          bracketEnd = (case closingScan (drop bracketStart srcString) bracketStart 0 of
                          None \<Rightarrow> bracketStart | Some i \<Rightarrow> i)
      in substring srcString bracketStart bracketEnd)"

text \<open>
  \<^verbatim>\<open>getFunctionArgs\<close>: one pass over the whitespace-free argument string; the bracket
  counter is a signed number, as a closing bracket with none open takes it below zero.
\<close>

fun argsLoop :: "string \<Rightarrow> string \<Rightarrow> nat \<Rightarrow> nat \<Rightarrow> int \<Rightarrow> string list \<Rightarrow> string list" where
  "argsLoop trimmed [] i startIndex numBrackets res = res"
| "argsLoop trimmed (c # cs) i startIndex numBrackets res =
     (if c = CHR ''('' then argsLoop trimmed cs (Suc i) startIndex (numBrackets + 1) res
      else if c = CHR '')'' then
        (if numBrackets - 1 = 0 \<and> Suc i = length trimmed
         then argsLoop trimmed cs (Suc i) startIndex (numBrackets - 1)
                (res @ [substring trimmed startIndex (i + 1)])
         else argsLoop trimmed cs (Suc i) startIndex (numBrackets - 1) res)
      else if (c = CHR '','' \<or> Suc i = length trimmed) \<and> numBrackets = 0 then
        (let endIndex = (if Suc i = length trimmed then i + 1 else i)
         in argsLoop trimmed cs (Suc i) (i + 1) numBrackets
              (res @ [substring trimmed startIndex endIndex]))
      else argsLoop trimmed cs (Suc i) startIndex numBrackets res)"

definition getFunctionArgs :: "string \<Rightarrow> string list" where
  "getFunctionArgs argString =
     (let trimmed = stripSpaces argString in argsLoop trimmed trimmed 0 0 0 [])"

text \<open>The loop of \<^verbatim>\<open>parseFunctionToken\<close> that joins the argument symbols with commas.\<close>

fun joinArgs :: "string list \<Rightarrow> string" where
  "joinArgs [] = []"
| "joinArgs [symbol] = symbol"
| "joinArgs (symbol # rest) = symbol @ '','' @ joinArgs rest"

text \<open>The \<^verbatim>\<open>switch\<close> at the end of \<^verbatim>\<open>getSymbolForToken\<close>.\<close>

definition operatorSymbol :: "string \<Rightarrow> string" where
  "operatorSymbol token =
     (if token = ''<'' then ''<''
      else if token = ''<='' then ''<=''
      else if token = ''=='' then ''==''
      else if token = ''!='' then ''!=''
      else if token = ''>='' then ''>=''
      else if token = ''>'' then ''>''
      else if token = ''+'' then ''+''
      else if token = ''-'' then ''-''
      else if token = ''*'' then ''*''
      else if token = ''/'' then ''/''
      else if token = ''%'' then ''%''
      else if token = ''('' then ''(''
      else if token = '')'' then '')''
      else if token = ''&&'' then ''&&''
      else if token = ''||'' then ''||''
      else [])"

lemma substring_length: "length (substring s a b) \<le> length s"
proof -
  have "length (take k (drop l s)) \<le> length s" for k l by simp
  then show ?thesis by (simp only: substring_def Let_def)
qed

lemma substring_length_diff: "a \<le> b \<Longrightarrow> length (substring s a b) \<le> b - a"
  by (auto simp: substring_def Let_def min_def max_def)

lemma closingScan_bounds:
  "closingScan cs i n = Some k \<Longrightarrow> i \<le> k \<and> k < i + length cs"
proof (induction cs arbitrary: i n)
  case Nil
  then show ?case by simp
next
  case (Cons c cs)
  then show ?case by (fastforce split: if_splits)
qed

lemma indexOfChar_bound: "indexOfChar s c = Some k \<Longrightarrow> k < length s"
  by (auto simp: indexOfChar_def find_Some_iff)

lemma getSubstringWithinParentheses_shorter:
  assumes "srcString \<noteq> []"
  shows "length (getSubstringWithinParentheses srcString) < length srcString"
proof -
  define bracketStart where
    "bracketStart = (case indexOfChar srcString (CHR ''('') of None \<Rightarrow> 0 | Some k \<Rightarrow> k + 1)"
  define bracketEnd where
    "bracketEnd = (case closingScan (drop bracketStart srcString) bracketStart 0 of
                     None \<Rightarrow> bracketStart | Some i \<Rightarrow> i)"
  have start: "bracketStart \<le> length srcString"
    by (auto simp: bracketStart_def dest: indexOfChar_bound split: option.splits)
  have "bracketStart \<le> bracketEnd \<and> bracketEnd - bracketStart < length srcString"
  proof (cases "closingScan (drop bracketStart srcString) bracketStart 0")
    case None
    then show ?thesis using assms by (simp add: bracketEnd_def)
  next
    case (Some k)
    from closingScan_bounds [OF Some] start have "bracketStart \<le> k" "k < length srcString"
      by auto
    then show ?thesis using Some by (simp add: bracketEnd_def)
  qed
  moreover have "getSubstringWithinParentheses srcString = substring srcString bracketStart bracketEnd"
    unfolding getSubstringWithinParentheses_def Let_def bracketEnd_def bracketStart_def
    by (rule refl)
  ultimately show ?thesis
    using substring_length_diff [of bracketStart bracketEnd srcString] by simp
qed

lemma argsLoop_lengths:
  assumes "x \<in> set (argsLoop trimmed cs i startIndex numBrackets res)"
  shows "x \<in> set res \<or> length x \<le> length trimmed"
  using assms
proof (induction cs arbitrary: i startIndex numBrackets res)
  case Nil
  then show ?case by simp
next
  case (Cons c cs)
  from Cons.prems show ?case
    by (auto simp: Let_def substring_length split: if_splits dest!: Cons.IH)
qed

lemma getFunctionArgs_lengths:
  "x \<in> set (getFunctionArgs argString) \<Longrightarrow> length x \<le> length argString"
proof -
  assume "x \<in> set (getFunctionArgs argString)"
  then have "length x \<le> length (stripSpaces argString)"
    by (auto simp: getFunctionArgs_def Let_def dest: argsLoop_lengths)
  also have "\<dots> \<le> length argString" by (simp add: stripSpaces_def)
  finally show ?thesis .
qed

lemma getFunctionArgs_empty: "getFunctionArgs [] = []"
  by (simp add: getFunctionArgs_def stripSpaces_def)

lemma function_args_shorter:
  assumes "arg \<in> set (getFunctionArgs (getSubstringWithinParentheses token))"
  shows "length arg < length token"
proof (cases "token = []")
  case True
  then have "getSubstringWithinParentheses token = []"
    by (simp add: getSubstringWithinParentheses_def substring_def Let_def)
  with assms show ?thesis by (simp add: getFunctionArgs_empty)
next
  case False
  from getFunctionArgs_lengths [OF assms] getSubstringWithinParentheses_shorter [OF False]
  show ?thesis by simp
qed

text \<open>
  \<^verbatim>\<open>getSymbolForToken\<close> and \<^verbatim>\<open>parseFunctionToken\<close> call each other: a function token is
  rewritten from the symbols of its arguments, which are shorter than the token.
\<close>

function getSymbolForToken :: "registry \<Rightarrow> string \<Rightarrow> string"
  and parseFunctionToken :: "registry \<Rightarrow> string \<Rightarrow> string" where
  "getSymbolForToken customFunctions token =
     (if isModelVariable token then
        (if length token = 1 then ''this.model''
         else replaceFirst token [MODEL_PREFIX] ''this.model.'')
      else if isStateVariable token then
        (if length token = 1 then ''this.state''
         else replaceFirst token [STATE_PREFIX] ''this.state.'')
      else if isStatementToken customFunctions token then
        ''this.functions['' @ STRING_SYMBOL @ token @ STRING_SYMBOL @ ''](this.model, this.state)''
      else if isFunctionToken customFunctions token then parseFunctionToken customFunctions token
      else if isString token then token
      else if isNumberString token then token
      else operatorSymbol token)"
| "parseFunctionToken customFunctions token =
     (let funName = takeWhile (\<lambda>c. c \<noteq> CHR ''('') token;
          argString = getSubstringWithinParentheses token;
          args = getFunctionArgs argString;
          argSymbols = joinArgs (map (getSymbolForToken customFunctions) args)
      in ''this.functions['' @ STRING_SYMBOL @ funName @ STRING_SYMBOL @ '']('' @ argSymbols @ '')'')"
  by pat_completeness auto
termination
  by (relation "measure (\<lambda>x. case x of Inl (_, token) \<Rightarrow> 2 * length token + 1
                                      | Inr (_, token) \<Rightarrow> 2 * length token)")
     (auto dest: function_args_shorter)

declare getSymbolForToken.simps [simp del] parseFunctionToken.simps [simp del]

definition getStringFromTokens :: "registry \<Rightarrow> string list \<Rightarrow> string" where
  "getStringFromTokens customFunctions tokens = concat (map (getSymbolForToken customFunctions) tokens)"

section \<open>Expression tokenizer\<close>

text \<open>
  Each \<^verbatim>\<open>get...EndIndex\<close> function scans from the start of a token and returns the index
  after it; when its loop ends without a \<^verbatim>\<open>break\<close> it returns the \<^verbatim>\<open>endIndex\<close> it was
  given. A loop with a single exit test is written with \<open>find\<close> over the index range.
\<close>

definition getDataAccessEndIndex :: "string \<Rightarrow> nat \<Rightarrow> nat \<Rightarrow> nat" where
  "getDataAccessEndIndex trimmed startIndex endIndex =
     (case find (\<lambda>i. Suc i = length trimmed \<or> \<not> matchWordOrDot (charAt trimmed i))
                [Suc startIndex..<length trimmed] of
        None \<Rightarrow> endIndex
      | Some i \<Rightarrow> if Suc i = length trimmed then i + 1 else i)"

definition getStringEndIndex :: "string \<Rightarrow> nat \<Rightarrow> nat \<Rightarrow> nat" where
  "getStringEndIndex trimmed startIndex endIndex =
     (case find (\<lambda>i. charAt trimmed i = STRING_SYMBOL) [Suc startIndex..<length trimmed] of
        None \<Rightarrow> endIndex
      | Some i \<Rightarrow> i + 1)"

definition getNumberEndIndex :: "string \<Rightarrow> nat \<Rightarrow> nat \<Rightarrow> nat" where
  "getNumberEndIndex trimmed startIndex endIndex =
     (case find (\<lambda>i. Suc i = length trimmed \<or> \<not> matchDigitOrDot (charAt trimmed i))
                [startIndex..<length trimmed] of
        None \<Rightarrow> endIndex
      | Some i \<Rightarrow> if Suc i = length trimmed then i + 1 else i)"

definition getStatementEndIndex :: "string \<Rightarrow> nat \<Rightarrow> nat \<Rightarrow> nat" where
  "getStatementEndIndex trimmed startIndex endIndex =
     (case find (\<lambda>i. Suc i = length trimmed \<or> \<not> matchWord (charAt trimmed i))
                [Suc startIndex..<length trimmed] of
        None \<Rightarrow> endIndex
      | Some i \<Rightarrow> if Suc i = length trimmed then i + 1 else i)"

text \<open>
  The loop of \<^verbatim>\<open>getFunctionEndIndex\<close> keeps a signed bracket counter and the flag
  \<^verbatim>\<open>foundFirst\<close>; it returns the flag and the index at which it broke, if it did.
\<close>

fun functionEndLoop :: "string \<Rightarrow> nat \<Rightarrow> int \<Rightarrow> bool \<Rightarrow> bool \<times> nat option" where
  "functionEndLoop [] i numBrackets foundFirst = (foundFirst, None)"
| "functionEndLoop (endChar # cs) i numBrackets foundFirst =
     (let numBrackets' = (if endChar = CHR ''('' then numBrackets + 1
                          else if endChar = CHR '')'' then numBrackets - 1 else numBrackets);
          foundFirst' = (foundFirst \<or> endChar = CHR ''('')
      in if foundFirst' \<and> numBrackets' = 0 then (foundFirst', Some (i + 1))
         else if numBrackets' = 0 \<and> \<not> matchWord [endChar] then (True, Some i)
         else functionEndLoop cs (Suc i) numBrackets' foundFirst')"

definition getFunctionEndIndex :: "string \<Rightarrow> nat \<Rightarrow> nat \<Rightarrow> nat" where
  "getFunctionEndIndex trimmed startIndex endIndex =
     (case functionEndLoop (drop (Suc startIndex) trimmed) (Suc startIndex) 0 False of
        (foundFirst, end) \<Rightarrow>
          if \<not> foundFirst then getStatementEndIndex trimmed startIndex endIndex
          else (case end of None \<Rightarrow> endIndex | Some e \<Rightarrow> e))"

definition getOperatorEndIndex :: "string \<Rightarrow> char \<Rightarrow> nat \<Rightarrow> nat \<Rightarrow> nat" where
  "getOperatorEndIndex trimmed startChar startIndex endIndex =
     (if startChar = CHR ''<'' \<or> startChar = CHR ''>'' \<or> startChar = CHR ''!'' \<or> startChar = CHR ''=''
      then startIndex + (if charIndex trimmed (startIndex + 1) = Some (CHR ''='') then 2 else 1)
      else if startChar = CHR ''&'' \<or> startChar = CHR ''|'' then startIndex + 2
      else if startChar = CHR ''('' \<or> startChar = CHR '')'' \<or> startChar = CHR ''+'' \<or>
              startChar = CHR ''-'' \<or> startChar = CHR ''*'' \<or> startChar = CHR ''/'' \<or>
              startChar = CHR ''%''
      then startIndex + 1
      else endIndex)"

text \<open>Decimal digits of an index, for the error message.\<close>

fun showNat :: "nat \<Rightarrow> string" where
  "showNat n =
     (if n < 10 then [''0123456789'' ! n] else showNat (n div 10) @ [''0123456789'' ! (n mod 10)])"

declare showNat.simps [simp del]

text \<open>
  The classification at the head of the loop body of \<^verbatim>\<open>generateConditionalString\<close>: the
  new \<^verbatim>\<open>endIndex\<close>, or the error thrown. Indexing past the end gives \<^verbatim>\<open>undefined\<close>, which
  passes the two comparisons and makes the call of \<^verbatim>\<open>match\<close> throw a \<^verbatim>\<open>TypeError\<close>; this
  happens only when the whitespace-free text is empty.
\<close>

definition nextEndIndex :: "registry \<Rightarrow> string \<Rightarrow> string \<Rightarrow> nat \<Rightarrow> nat \<Rightarrow> error + nat" where
  "nextEndIndex customFunctions data trimmed startIndex endIndex =
     (case charIndex trimmed startIndex of
        None \<Rightarrow> Inl (TypeError ''startChar is undefined'')
      | Some startChar \<Rightarrow>
          if startChar = MODEL_PREFIX \<or> startChar = STATE_PREFIX
          then Inr (getDataAccessEndIndex trimmed startIndex endIndex)
          else if [startChar] = STRING_SYMBOL
          then Inr (getStringEndIndex trimmed startIndex endIndex)
          else if isDigitChar startChar
          then Inr (getNumberEndIndex trimmed startIndex endIndex)
          else if isFunctionToken customFunctions (substringFrom trimmed startIndex)
          then Inr (getFunctionEndIndex trimmed startIndex endIndex)
          else if startChar \<in> set OPERATOR_START
          then Inr (getOperatorEndIndex trimmed startChar startIndex endIndex)
          else Inl (Error (''Unable to parse statement: '' @ data @ '', char: '' @ [startChar] @
                           '', index: '' @ showNat startIndex)))"

definition maxIterationsError :: "string \<Rightarrow> error" where
  "maxIterationsError data =
     Error (''Maximum number of parsing iterations reached, there is a syntax error here: '' @ data)"

text \<open>
  The \<^verbatim>\<open>while (!done)\<close> loop. Nothing in its shape says that it ends, so it is a partial
  function: \<open>None\<close> would be a run that never returns. One call is one iteration: the
  token is pushed, \<^verbatim>\<open>done\<close> is set when the text is used up, and then the counter is
  tested (\<^verbatim>\<open>iterations++ > 1000\<close>) before the loop condition is read again.
\<close>

partial_function (option) tokenLoop ::
  "registry \<Rightarrow> string \<Rightarrow> string \<Rightarrow> string list \<Rightarrow> nat \<Rightarrow> nat \<Rightarrow> nat \<Rightarrow> (error + string list) option"
where
  "tokenLoop customFunctions data trimmed tokens startIndex endIndex iterations =
     (case nextEndIndex customFunctions data trimmed startIndex endIndex of
        Inl e \<Rightarrow> Some (Inl e)
      | Inr endIndex' \<Rightarrow>
          (let tokens' = tokens @ [substring trimmed startIndex endIndex'];
               startIndex' = endIndex';
               done = (startIndex' \<ge> length trimmed)
           in if iterations > 1000 then Some (Inl (maxIterationsError data))
              else if done then Some (Inr tokens')
              else tokenLoop customFunctions data trimmed tokens' startIndex' endIndex'
                     (iterations + 1)))"

declare tokenLoop.simps [code]

definition tokenize :: "registry \<Rightarrow> string \<Rightarrow> (error + string list) option" where
  "tokenize customFunctions data = tokenLoop customFunctions data (stripSpaces data) [] 0 0 0"

definition generateConditionalString :: "registry \<Rightarrow> string \<Rightarrow> (error + string) option" where
  "generateConditionalString customFunctions data =
     (case tokenize customFunctions data of
        None \<Rightarrow> None
      | Some (Inl e) \<Rightarrow> Some (Inl e)
      | Some (Inr tokens) \<Rightarrow> Some (Inr (getStringFromTokens customFunctions tokens)))"

section \<open>Constraint assembler\<close>

text \<open>
  \<^verbatim>\<open>generateFunction\<close> builds the text of the function body and hands it to
  \<^verbatim>\<open>FunctionGenerator.generateFromString\<close>. The model returns the text.
\<close>

definition functionString :: "string \<Rightarrow> string \<Rightarrow> string" where
  "functionString activationString conditionString =
     ''if('' @ activationString @ ''){return('' @ conditionString @ '');}else{return(true);}''"

definition activationStringOf :: "registry \<Rightarrow> string \<Rightarrow> (error + string) option" where
  "activationStringOf customFunctions activationToken =
     (if startsWith activationToken ''ALWAYS'' then Some (Inr ''true'')
      else if startsWith activationToken ''WHEN'' then
        generateConditionalString customFunctions (getSubstringWithinParentheses activationToken)
      else if isStatementToken customFunctions activationToken then
        Some (Inr (''this.functions['' @ STRING_SYMBOL @ activationToken @ STRING_SYMBOL @
                   ''](this.model,this.state)''))
      else Some (Inr ''false''))"

definition generateFunction :: "registry \<Rightarrow> string \<Rightarrow> (error + string) option" where
  "generateFunction customFunctions assertion =
     (case getSplitTokens assertion of
        Inl e \<Rightarrow> Some (Inl e)
      | Inr tokens \<Rightarrow>
          (let activationToken = trim (tokens ! 0);
               conditionToken = trim (tokens ! 1)
           in case activationStringOf customFunctions activationToken of
                None \<Rightarrow> None
              | Some (Inl e) \<Rightarrow> Some (Inl e)
              | Some (Inr activationString) \<Rightarrow>
                  (case generateConditionalString customFunctions conditionToken of
                     None \<Rightarrow> None
                   | Some (Inl e) \<Rightarrow> Some (Inl e)
                   | Some (Inr conditionString) \<Rightarrow>
                       Some (Inr (functionString activationString conditionString)))))"

section \<open>Model and state values\<close>

text \<open>
  The model and the state are objects of the host: nested records with string keys whose
  leaves are strings, numbers, booleans, \<^verbatim>\<open>null\<close> or \<^verbatim>\<open>undefined\<close>. Numbers are modelled
  as integers of magnitude below \<open>2^53\<close>, which the host represents exactly; fractions,
  larger numbers and \<^verbatim>\<open>NaN\<close> are outside this model. Properties that the host
  attaches to every value (\<^verbatim>\<open>length\<close>, \<^verbatim>\<open>toString\<close>, ...) are not modelled either: a
  value has the properties listed in it and no others.
\<close>

datatype jsval =
    JUndefined
  | JNull
  | JBool bool
  | JNum int
  | JStr string
  | JObj "(string \<times> jsval) list"

datatype 'a outcome = Returns 'a | Throws error | Unmodelled string

definition safeInteger :: "int \<Rightarrow> bool" where
  "safeInteger n = (\<bar>n\<bar> < 2 ^ 53)"

text \<open>
  Reading a property: \<^verbatim>\<open>value[key]\<close> throws a \<^verbatim>\<open>TypeError\<close> when the value is
  \<^verbatim>\<open>undefined\<close> or \<^verbatim>\<open>null\<close>, and gives \<^verbatim>\<open>undefined\<close> when the property is missing.
\<close>

fun getProperty :: "jsval \<Rightarrow> string \<Rightarrow> error + jsval" where
  "getProperty JUndefined key = Inl (TypeError (''Cannot read properties of undefined (reading '' @ key @ '')''))"
| "getProperty JNull key = Inl (TypeError (''Cannot read properties of null (reading '' @ key @ '')''))"
| "getProperty (JObj props) key = (case map_of props key of None \<Rightarrow> Inr JUndefined | Some v \<Rightarrow> Inr v)"
| "getProperty v key = Inr JUndefined"

text \<open>\<^verbatim>\<open>keyChain.split('.')\<close>.\<close>

fun splitOn :: "char \<Rightarrow> string \<Rightarrow> string list" where
  "splitOn sep [] = [[]]"
| "splitOn sep (c # cs) =
     (if c = sep then [] # splitOn sep cs
      else (case splitOn sep cs of [] \<Rightarrow> [[c]] | w # ws \<Rightarrow> (c # w) # ws))"

fun walkKeys :: "jsval \<Rightarrow> string list \<Rightarrow> error + jsval" where
  "walkKeys value [] = Inr value"
| "walkKeys value (key # keys) =
     (case getProperty value key of Inl e \<Rightarrow> Inl e | Inr v \<Rightarrow> walkKeys v keys)"

text \<open>\<^verbatim>\<open>getObjectValue\<close>: whatever is thrown inside the \<^verbatim>\<open>try\<close> block is caught.\<close>

definition getObjectValue :: "jsval \<Rightarrow> string \<Rightarrow> jsval" where
  "getObjectValue object keyChain =
     (if keyChain = [] then object
      else (case walkKeys object (splitOn (CHR ''.'') keyChain) of
              Inl err \<Rightarrow> JStr ''UNDEFINED_VALUE''
            | Inr value \<Rightarrow> value))"

text \<open>The host's conversion of a value to text, as \<^verbatim>\<open>replace\<close> applies it.\<close>

definition showInt :: "int \<Rightarrow> string" where
  "showInt i = (if i < 0 then CHR ''-'' # showNat (nat (- i)) else showNat (nat i))"


text \<open>
  The table of functions that the caller passes in. A function is applied to a list of
  argument values and returns a value or throws; calling a name that the table does not
  hold is a call of \<^verbatim>\<open>undefined\<close>, a \<^verbatim>\<open>TypeError\<close>.
\<close>

type_synonym functionTable = "string \<Rightarrow> (jsval list \<Rightarrow> error + jsval) option"

definition callFunction :: "functionTable \<Rightarrow> string \<Rightarrow> jsval list \<Rightarrow> error + jsval" where
  "callFunction fs name args =
     (case fs name of
        None \<Rightarrow> Inl (TypeError (''functions['' @ name @ ''] is not a function''))
      | Some f \<Rightarrow> f args)"

section \<open>Message tokenizer\<close>














section \<open>Message rendering\<close>


text \<open>
  \<^verbatim>\<open>Number.parseFloat\<close> reads the longest numeric prefix of its argument. The model gives
  its value when the argument is an optional sign and a run of digits that is followed by
  nothing or by a character other than a dot or an exponent mark, and the value is below
  \<open>2^53\<close>. For every other argument the host's value is not determined here.
\<close>

definition digitValue :: "char \<Rightarrow> nat" where
  "digitValue c = (case find (\<lambda>i. ''0123456789'' ! i = c) [0..<10] of None \<Rightarrow> 0 | Some i \<Rightarrow> i)"

definition digitsValue :: "string \<Rightarrow> nat" where
  "digitsValue ds = foldl (\<lambda>n c. 10 * n + digitValue c) 0 ds"









section \<open>Running the generated function\<close>

text \<open>
  Modelled from the spec: \<^verbatim>\<open>FunctionGenerator.generateFromString\<close>, which turns the function
  text into a callable, is imported from \<^verbatim>\<open>./ignoreCoverage/FunctionGenerator\<close> and is not
  among the sources; the text is then run by the host with \<^verbatim>\<open>this.model\<close>,
  \<^verbatim>\<open>this.state\<close> and \<^verbatim>\<open>this.functions\<close> bound. What follows is a small evaluator for
  the texts that \<^verbatim>\<open>generateFunction\<close> emits, written from the specification: the
  evaluation contract "if the activation holds, the result is the condition, otherwise
  true", the operator table with its precedence (tightest first: \<^verbatim>\<open>* / %\<close>, then
  \<^verbatim>\<open>+ -\<close>, then \<^verbatim>\<open>< <= > >=\<close>, then \<^verbatim>\<open>== !=\<close>, then \<^verbatim>\<open>&&\<close>, then \<^verbatim>\<open>||\<close>), association to the
  left at equal precedence, brackets that group, and no unary operators. Property
  access and the call of a function are the host's, as in the section on values. A text
  outside this fragment has the outcome \<open>Unmodelled\<close>, and so has a computation whose
  value is no integer below \<open>2^53\<close>, or which the host decides by converting an operand.
\<close>

datatype binop = OMul | ODiv | OMod | OAdd | OSub | OLt | OLe | OGt | OGe | OEq | ONe | OAnd | OOr

fun precedence :: "binop \<Rightarrow> nat" where
  "precedence OMul = 6" | "precedence ODiv = 6" | "precedence OMod = 6"
| "precedence OAdd = 5" | "precedence OSub = 5"
| "precedence OLt = 4" | "precedence OLe = 4" | "precedence OGt = 4" | "precedence OGe = 4"
| "precedence OEq = 3" | "precedence ONe = 3"
| "precedence OAnd = 2"
| "precedence OOr = 1"

datatype jstoken =
    TLit jsval
  | TModel "string list"
  | TState "string list"
  | TFun string
  | TOp binop
  | TOpen
  | TClose
  | TComma

datatype jsexpr =
    ELit jsval
  | EModel "string list"
  | EState "string list"
  | ECall string "jsexpr list"
  | EBin binop jsexpr jsexpr

subsection \<open>Tokens of the generated text\<close>

definition isIdentifier :: "string \<Rightarrow> bool" where
  "isIdentifier s = (s \<noteq> [] \<and> list_all isWordChar s \<and> \<not> isDigitChar (hd s))"

text \<open>The keys after \<^verbatim>\<open>this.model\<close> or \<^verbatim>\<open>this.state\<close>, and the number of characters read.\<close>

definition lexPath :: "string \<Rightarrow> (string list \<times> nat) option" where
  "lexPath s =
     (let p = takeWhile (\<lambda>c. isWordChar c \<or> c = CHR ''.'') s in
      if p = [] then Some ([], 0)
      else if hd p \<noteq> CHR ''.'' then None
      else (let keys = splitOn (CHR ''.'') (tl p) in
            if list_all isIdentifier keys then Some (keys, length p) else None))"

definition lexOperator :: "string \<Rightarrow> (jstoken \<times> nat) option" where
  "lexOperator s =
     (if startsWith s ''<='' then Some (TOp OLe, 2)
      else if startsWith s ''>='' then Some (TOp OGe, 2)
      else if startsWith s ''=='' then Some (TOp OEq, 2)
      else if startsWith s ''!='' then Some (TOp ONe, 2)
      else if startsWith s ''&&'' then Some (TOp OAnd, 2)
      else if startsWith s ''||'' then Some (TOp OOr, 2)
      else if startsWith s ''<'' then Some (TOp OLt, 1)
      else if startsWith s ''>'' then Some (TOp OGt, 1)
      else if startsWith s ''+'' then Some (TOp OAdd, 1)
      else if startsWith s ''-'' then Some (TOp OSub, 1)
      else if startsWith s ''*'' then Some (TOp OMul, 1)
      else if startsWith s ''/'' then Some (TOp ODiv, 1)
      else if startsWith s ''%'' then Some (TOp OMod, 1)
      else if startsWith s ''('' then Some (TOpen, 1)
      else if startsWith s '')'' then Some (TClose, 1)
      else if startsWith s '','' then Some (TComma, 1)
      else None)"

text \<open>
  One token at the head of a text that starts with no blank, and its length. A number
  is a run of digits with no leading zero, no fraction and a value below \<open>2^53\<close>; a
  string literal holds no backslash and no line break.
\<close>

definition plainText :: "string \<Rightarrow> bool" where
  "plainText s = list_all (\<lambda>c. c \<noteq> CHR 0x5C \<and> c \<noteq> CHR 0x0A \<and> c \<noteq> CHR 0x0D) s"


definition lexOne :: "string \<Rightarrow> (jstoken \<times> nat) option" where
  "lexOne s =
     (if isDigitChar (hd s) then
        (let ds = takeWhile isDigitChar s; rest = dropWhile isDigitChar s in
         if rest \<noteq> [] \<and> (isWordChar (hd rest) \<or> hd rest = CHR ''.'') then None
         else if length ds > 1 \<and> hd ds = CHR ''0'' then None
         else if \<not> safeInteger (int (digitsValue ds)) then None
         else Some (TLit (JNum (int (digitsValue ds))), length ds))
      else if hd s = CHR 0x27 then
        (let body = takeWhile (\<lambda>c. c \<noteq> CHR 0x27) (tl s) in
         if length body + 1 < length s \<and> plainText body
         then Some (TLit (JStr body), length body + 2) else None)
      else if startsWith s ''this.model'' then
        (case lexPath (drop 10 s) of None \<Rightarrow> None | Some (keys, n) \<Rightarrow> Some (TModel keys, 10 + n))
      else if startsWith s ''this.state'' then
        (case lexPath (drop 10 s) of None \<Rightarrow> None | Some (keys, n) \<Rightarrow> Some (TState keys, 10 + n))
      else if startsWith s (''this.functions['' @ [CHR 0x27]) then
        (let name = takeWhile (\<lambda>c. c \<noteq> CHR 0x27) (drop 16 s) in
         if startsWith (drop (16 + length name) s) ([CHR 0x27] @ '']'') \<and> plainText name
         then Some (TFun name, 16 + length name + 2) else None)
      else if startsWith s ''true'' \<and> \<not> matchWord (charAt s 4) then Some (TLit (JBool True), 4)
      else if startsWith s ''false'' \<and> \<not> matchWord (charAt s 5) then Some (TLit (JBool False), 5)
      else lexOperator s)"

function jsLex :: "string \<Rightarrow> jstoken list option" where
  "jsLex s =
     (let s' = dropWhile isSpaceChar s in
      if s' = [] then Some []
      else (case lexOne s' of
              None \<Rightarrow> None
            | Some (t, n) \<Rightarrow>
                (case jsLex (drop (Suc (n - 1)) s') of None \<Rightarrow> None | Some ts \<Rightarrow> Some (t # ts))))"
  by pat_completeness auto
termination
proof (relation "measure length")
  fix s s' :: string and x2 x y
  assume s': "s' = dropWhile isSpaceChar s" "s' \<noteq> []"
  have "length s' \<le> length s"
    unfolding s'(1) by (rule length_dropWhile_le)
  moreover have "length (drop (Suc (y - 1)) s') < length s'"
    using s'(2) by (cases s') simp_all
  ultimately show "(drop (Suc (y - 1)) s', s) \<in> measure length"
    by simp
qed simp

declare jsLex.simps [simp del]

subsection \<open>Expressions by operator precedence\<close>

datatype stackItem = SOp binop | SParen | SCall string "jsexpr list"

text \<open>
  Operators waiting on the stack are applied while they bind at least as tightly as the
  incoming one: this is what makes equal precedence associate to the left.
\<close>

fun popWhile :: "nat \<Rightarrow> stackItem list \<Rightarrow> jsexpr list \<Rightarrow> (stackItem list \<times> jsexpr list) option" where
  "popWhile p (SOp oper # ops) nodes =
     (if precedence oper \<ge> p then
        (case nodes of
           r # l # nodes' \<Rightarrow> popWhile p ops (EBin oper l r # nodes')
         | _ \<Rightarrow> None)
      else Some (SOp oper # ops, nodes))"
| "popWhile p ops nodes = Some (ops, nodes)"

fun parseLoop :: "jstoken list \<Rightarrow> bool \<Rightarrow> stackItem list \<Rightarrow> jsexpr list \<Rightarrow> jsexpr option" where
  "parseLoop [] expectOperand ops nodes =
     (if expectOperand then None
      else (case popWhile 0 ops nodes of Some ([], [e]) \<Rightarrow> Some e | _ \<Rightarrow> None))"
| "parseLoop (t # ts) expectOperand ops nodes =
     (if expectOperand then
        (case t of
           TLit v \<Rightarrow> parseLoop ts False ops (ELit v # nodes)
         | TModel keys \<Rightarrow> parseLoop ts False ops (EModel keys # nodes)
         | TState keys \<Rightarrow> parseLoop ts False ops (EState keys # nodes)
         | TOpen \<Rightarrow> parseLoop ts True (SParen # ops) nodes
         | TFun name \<Rightarrow>
             (case ts of
                TOpen # TClose # ts' \<Rightarrow> parseLoop ts' False ops (ECall name [] # nodes)
              | TOpen # ts' \<Rightarrow> parseLoop ts' True (SCall name [] # ops) nodes
              | _ \<Rightarrow> None)
         | _ \<Rightarrow> None)
      else
        (case t of
           TOp oper \<Rightarrow>
             (case popWhile (precedence oper) ops nodes of
                Some (ops', nodes') \<Rightarrow> parseLoop ts True (SOp oper # ops') nodes'
              | None \<Rightarrow> None)
         | TClose \<Rightarrow>
             (case popWhile 0 ops nodes of
                Some (SParen # ops', nodes') \<Rightarrow> parseLoop ts False ops' nodes'
              | Some (SCall name args # ops', e # nodes') \<Rightarrow>
                  parseLoop ts False ops' (ECall name (args @ [e]) # nodes')
              | _ \<Rightarrow> None)
         | TComma \<Rightarrow>
             (case popWhile 0 ops nodes of
                Some (SCall name args # ops', e # nodes') \<Rightarrow>
                  parseLoop ts True (SCall name (args @ [e]) # ops') nodes'
              | _ \<Rightarrow> None)
         | _ \<Rightarrow> None))"

definition jsParseExpr :: "jstoken list \<Rightarrow> jsexpr option" where
  "jsParseExpr ts = parseLoop ts True [] []"

subsection \<open>Values of expressions\<close>

fun truthy :: "jsval \<Rightarrow> bool" where
  "truthy JUndefined = False"
| "truthy JNull = False"
| "truthy (JBool b) = b"
| "truthy (JNum n) = (n \<noteq> 0)"
| "truthy (JStr s) = (s \<noteq> [])"
| "truthy (JObj props) = True"

text \<open>
  Loose equality on the values of the model: two numbers, two strings or two booleans
  are compared by value; \<^verbatim>\<open>undefined\<close> and \<^verbatim>\<open>null\<close> equal each other and nothing else.
  Comparisons that the host decides by converting one side, or by the identity of
  objects, are outside the model.
\<close>

fun looseEquals :: "jsval \<Rightarrow> jsval \<Rightarrow> bool option" where
  "looseEquals (JNum a) (JNum b) = Some (a = b)"
| "looseEquals (JStr a) (JStr b) = Some (a = b)"
| "looseEquals (JBool a) (JBool b) = Some (a = b)"
| "looseEquals JUndefined JUndefined = Some True"
| "looseEquals JUndefined JNull = Some True"
| "looseEquals JNull JUndefined = Some True"
| "looseEquals JNull JNull = Some True"
| "looseEquals JUndefined b = Some False"
| "looseEquals JNull b = Some False"
| "looseEquals a JUndefined = Some False"
| "looseEquals a JNull = Some False"
| "looseEquals a b = None"

fun lessThan :: "jsval \<Rightarrow> jsval \<Rightarrow> bool option" where
  "lessThan (JNum a) (JNum b) = Some (a < b)"
| "lessThan JUndefined (JNum b) = Some False"
| "lessThan (JNum a) JUndefined = Some False"
| "lessThan a b = None"

definition fromBool :: "string \<Rightarrow> bool option \<Rightarrow> jsval outcome" where
  "fromBool what r = (case r of None \<Rightarrow> Unmodelled what | Some b \<Rightarrow> Returns (JBool b))"

fun lessEqual :: "jsval \<Rightarrow> jsval \<Rightarrow> bool option" where
  "lessEqual (JNum a) (JNum b) = Some (a \<le> b)"
| "lessEqual JUndefined (JNum b) = Some False"
| "lessEqual (JNum a) JUndefined = Some False"
| "lessEqual a b = None"

definition number :: "int \<Rightarrow> jsval outcome" where
  "number n = (if safeInteger n then Returns (JNum n) else Unmodelled ''precision'')"

definition plus :: "jsval \<Rightarrow> jsval \<Rightarrow> jsval outcome" where
  "plus a b =
     (case (a, b) of
        (JNum x, JNum y) \<Rightarrow> number (x + y)
      | (JStr x, JStr y) \<Rightarrow> Returns (JStr (x @ y))
      | (JStr x, JNum y) \<Rightarrow> Returns (JStr (x @ showInt y))
      | (JNum x, JStr y) \<Rightarrow> Returns (JStr (showInt x @ y))
      | _ \<Rightarrow> Unmodelled ''operand conversion'')"

text \<open>The remainder takes the sign of the dividend.\<close>

definition arithmetic :: "binop \<Rightarrow> int \<Rightarrow> int \<Rightarrow> jsval outcome" where
  "arithmetic oper x y =
     (if oper = OSub then number (x - y)
      else if oper = OMul then number (x * y)
      else if oper = ODiv then
        (if y \<noteq> 0 \<and> y dvd x then Returns (JNum (x div y)) else Unmodelled ''fraction'')
      else if oper = OMod then
        (if y \<noteq> 0 then Returns (JNum (sgn x * (\<bar>x\<bar> mod \<bar>y\<bar>))) else Unmodelled ''NaN'')
      else Unmodelled ''operator'')"

definition binary :: "binop \<Rightarrow> jsval \<Rightarrow> jsval \<Rightarrow> jsval outcome" where
  "binary oper a b =
     (if oper = OEq then fromBool ''equality by conversion'' (looseEquals a b)
      else if oper = ONe then fromBool ''equality by conversion'' (map_option Not (looseEquals a b))
      else if oper = OLt then fromBool ''comparison by conversion'' (lessThan a b)
      else if oper = OGt then fromBool ''comparison by conversion'' (lessThan b a)
      else if oper = OLe then fromBool ''comparison by conversion'' (lessEqual a b)
      else if oper = OGe then fromBool ''comparison by conversion'' (lessEqual b a)
      else if oper = OAdd then plus a b
      else (case (a, b) of
              (JNum x, JNum y) \<Rightarrow> arithmetic oper x y
            | _ \<Rightarrow> Unmodelled ''operand conversion''))"

definition fromResult :: "error + 'a \<Rightarrow> 'a outcome" where
  "fromResult r = (case r of Inl e \<Rightarrow> Throws e | Inr v \<Rightarrow> Returns v)"

fun evalExpr :: "functionTable \<Rightarrow> jsval \<Rightarrow> jsval \<Rightarrow> jsexpr \<Rightarrow> jsval outcome"
  and evalArgs :: "functionTable \<Rightarrow> jsval \<Rightarrow> jsval \<Rightarrow> jsexpr list \<Rightarrow> jsval list outcome" where
  "evalExpr fs model state (ELit v) = Returns v"
| "evalExpr fs model state (EModel keys) = fromResult (walkKeys model keys)"
| "evalExpr fs model state (EState keys) = fromResult (walkKeys state keys)"
| "evalExpr fs model state (ECall name args) =
     (case evalArgs fs model state args of
        Returns vs \<Rightarrow> fromResult (callFunction fs name vs)
      | Throws e \<Rightarrow> Throws e
      | Unmodelled w \<Rightarrow> Unmodelled w)"
| "evalExpr fs model state (EBin oper l r) =
     (case evalExpr fs model state l of
        Returns a \<Rightarrow>
          (if oper = OAnd then (if truthy a then evalExpr fs model state r else Returns a)
           else if oper = OOr then (if truthy a then Returns a else evalExpr fs model state r)
           else (case evalExpr fs model state r of
                   Returns b \<Rightarrow> binary oper a b
                 | other \<Rightarrow> other))
      | other \<Rightarrow> other)"
| "evalArgs fs model state [] = Returns []"
| "evalArgs fs model state (a # as) =
     (case evalExpr fs model state a of
        Returns v \<Rightarrow>
          (case evalArgs fs model state as of
             Returns vs \<Rightarrow> Returns (v # vs)
           | other \<Rightarrow> other)
      | Throws e \<Rightarrow> Throws e
      | Unmodelled w \<Rightarrow> Unmodelled w)"

definition jsEvalString :: "functionTable \<Rightarrow> jsval \<Rightarrow> jsval \<Rightarrow> string \<Rightarrow> jsval outcome" where
  "jsEvalString fs model state text =
     (case jsLex text of
        None \<Rightarrow> Unmodelled ''text outside the fragment''
      | Some ts \<Rightarrow>
          (case jsParseExpr ts of
             None \<Rightarrow> Unmodelled ''text outside the fragment''
           | Some e \<Rightarrow> evalExpr fs model state e))"

subsection \<open>The function body\<close>

text \<open>
  The body is \<^verbatim>\<open>if(A){return(C);}else{return(true);}\<close>. \<open>A\<close> and \<open>C\<close> are read off by
  matching brackets, skipping quoted literals.
\<close>

fun scanToClose :: "string \<Rightarrow> nat \<Rightarrow> bool \<Rightarrow> (string \<times> string) option" where
  "scanToClose [] depth quoted = None"
| "scanToClose (c # cs) depth quoted =
     (if \<not> quoted \<and> c = CHR '')'' \<and> depth = 0 then Some ([], cs)
      else (case scanToClose cs
                   (if quoted then depth
                    else if c = CHR ''('' then Suc depth
                    else if c = CHR '')'' then depth - 1 else depth)
                   (if c = CHR 0x27 then \<not> quoted else quoted) of
              None \<Rightarrow> None
            | Some (inner, rest) \<Rightarrow> Some (c # inner, rest)))"

text \<open>
  A text is balanced when its brackets outside quoted literals match and its literals
  are closed.
\<close>

fun balancedFrom :: "string \<Rightarrow> nat \<Rightarrow> bool \<Rightarrow> bool" where
  "balancedFrom [] depth quoted = (depth = 0 \<and> \<not> quoted)"
| "balancedFrom (c # cs) depth quoted =
     (if \<not> quoted \<and> c = CHR '')'' \<and> depth = 0 then False
      else balancedFrom cs
             (if quoted then depth
              else if c = CHR ''('' then Suc depth
              else if c = CHR '')'' then depth - 1 else depth)
             (if c = CHR 0x27 then \<not> quoted else quoted))"

definition balanced :: "string \<Rightarrow> bool" where
  "balanced text = balancedFrom text 0 False"

definition ifElse :: "jsval outcome \<Rightarrow> jsval outcome \<Rightarrow> jsval outcome" where
  "ifElse activation condition =
     (case activation of
        Returns v \<Rightarrow> if truthy v then condition else Returns (JBool True)
      | other \<Rightarrow> other)"

definition jsRunFunction :: "functionTable \<Rightarrow> jsval \<Rightarrow> jsval \<Rightarrow> string \<Rightarrow> jsval outcome" where
  "jsRunFunction fs model state body =
     (if \<not> startsWith body ''if('' then Unmodelled ''body''
      else (case scanToClose (drop 3 body) 0 False of
              None \<Rightarrow> Unmodelled ''body''
            | Some (activationString, rest) \<Rightarrow>
                if \<not> startsWith rest ''{return('' then Unmodelled ''body''
                else (case scanToClose (drop 8 rest) 0 False of
                        None \<Rightarrow> Unmodelled ''body''
                      | Some (conditionString, rest') \<Rightarrow>
                          if rest' \<noteq> '';}else{return(true);}'' then Unmodelled ''body''
                          else ifElse (jsEvalString fs model state activationString)
                                 (jsEvalString fs model state conditionString))))"

text \<open>
  Compiling an assertion and running the result: \<open>None\<close> if the compiler did not return,
  \<open>Inl\<close> its error, \<open>Inr\<close> the outcome of the run.
\<close>

definition evaluateAssertion ::
  "registry \<Rightarrow> functionTable \<Rightarrow> jsval \<Rightarrow> jsval \<Rightarrow> string \<Rightarrow> (error + jsval outcome) option" where
  "evaluateAssertion customFunctions fs model state assertion =
     (case generateFunction customFunctions assertion of
        None \<Rightarrow> None
      | Some (Inl e) \<Rightarrow> Some (Inl e)
      | Some (Inr body) \<Rightarrow> Some (Inr (jsRunFunction fs model state body)))"

section \<open>Registries of identifiers\<close>

text \<open>
  Function names are meant to be identifiers. The registry itself accepts any text, so
  where a statement needs it, the following says that every registered name starts with
  a letter or an underscore.
\<close>

definition isLetterChar :: "char \<Rightarrow> bool" where
  "isLetterChar c = (isWordChar c \<and> \<not> isDigitChar c)"

definition identifierNames :: "registry \<Rightarrow> bool" where
  "identifierNames customFunctions =
     list_all (\<lambda>name. name \<noteq> [] \<and> isLetterChar (hd name)) customFunctions"

definition noLetters :: "string \<Rightarrow> bool" where
  "noLetters s = list_all (\<lambda>c. \<not> isLetterChar c) s"

section \<open>Example data\<close>


section \<open>Properties\<close>

lemma charAt_eq_single: "charAt s i = [c] \<longleftrightarrow> i < length s \<and> s ! i = c"
proof (cases "i < length s")
  case True
  then have "drop i s = s ! i # drop (Suc i) s"
    by (simp add: Cons_nth_drop_Suc)
  then show ?thesis using True by (simp add: charAt_def)
next
  case False
  then show ?thesis by (simp add: charAt_def)
qed

subsection \<open>Registry\<close>

text \<open>
  C7. Registering a name that is already present fails with the duplicate-registration
  error and returns the registry as it was; a successful registration returns the old
  registry with the name appended, so every name stays registered; registering the same
  name twice in a row fails the second time.
\<close>

theorem registerFunction_duplicate:
  "(name \<in> set reg \<longrightarrow>
      registerFunction reg name =
        (Inl (Error (''Function with name '' @ name @ '' is already registered'')), reg)) \<and>
   (name \<notin> set reg \<longrightarrow> registerFunction reg name = (Inr (), reg @ [name])) \<and>
   set reg \<subseteq> set (snd (registerFunction reg name)) \<and>
   prefix reg (snd (registerFunction reg name)) \<and>
   (let reg1 = snd (registerFunction reg name) in
      fst (registerFunction reg1 name) =
        Inl (Error (''Function with name '' @ name @ '' is already registered'')) \<and>
      snd (registerFunction reg1 name) = reg1)"
  by (auto simp: registerFunction_def Let_def)

theorem registerFunction_duplicate_witness:
  "registerFunction [''add''] ''add'' =
     (Inl (Error ''Function with name add is already registered''), [''add'']) \<and>
   registerFunction [''add''] ''mul'' = (Inr (), [''add'', ''mul''])"
  using registerFunction_duplicate [of "''add''" "[''add'']"]
        registerFunction_duplicate [of "''mul''" "[''add'']"]
  by simp

subsection \<open>The activation/condition separator\<close>


lemma find_upt_None: "find P [0..<n] = None \<longleftrightarrow> (\<forall>i<n. \<not> P i)"
  by (auto simp: find_None_iff)

lemma first_index_unique:
  fixes i k :: nat
  assumes "P i" "\<forall>j<i. \<not> P j" "P k" "\<forall>j<k. \<not> P j"
  shows "i = k"
  using assms by (meson linorder_neqE_nat)

lemma isSplitPoint_iff:
  "isSplitPoint s i \<longleftrightarrow>
     i < length s \<and> (charAt s i = '':'' \<and> \<not> isCharWithinString s i) \<and>
     (\<forall>j<i. \<not> (charAt s j = '':'' \<and> \<not> isCharWithinString s j))"
  by (auto simp: isSplitPoint_def list_all_iff charAt_eq_single)




lemma isSplitPoint_unique:
  assumes "isSplitPoint s i" "isSplitPoint s k"
  shows "i = k"
proof -
  let ?P = "\<lambda>i. charAt s i = '':'' \<and> \<not> isCharWithinString s i"
  from assms have "?P i" "\<forall>j<i. \<not> ?P j" "?P k" "\<forall>j<k. \<not> ?P j"
    unfolding isSplitPoint_iff by blast+
  then show ?thesis by (rule first_index_unique)
qed










subsection \<open>The tokenizer loop\<close>








subsection \<open>Symbols of tokens\<close>



















lemma operator_examples:
  "tokenize [] ''1 < 2'' = Some (Inr [''1'', ''<'', ''2''])"
  "tokenize [] ''1 <= 2'' = Some (Inr [''1'', ''<='', ''2''])"
  "generateConditionalString [] ''1 && 2'' = Some (Inr ''1&&2'')"
  "generateConditionalString [] ''1 & $a'' = Some (Inl (Error ''Unable to parse statement: 1 & $a, char: a, index: 3''))"
  by code_simp+


text \<open>
  C10. \<^verbatim>\<open>getSymbolForToken\<close> returns a token unchanged when \<^verbatim>\<open>isNumberString\<close> accepts it,
  and the unanchored expression accepts every text that holds a digit. The argument
  \<^verbatim>\<open>alert(1)\<close> of a registered function is no number and no string literal, yet it is
  copied into the function text as it stands; so is the token \<^verbatim>\<open>2)\<close> that the tokenizer
  cuts at the end of \<^verbatim>\<open>(1+2)\<close>.
\<close>

theorem getSymbolForToken_copies_text_with_digit:
  "\<not> matchesNumberPattern ''alert(1)'' \<and> \<not> isString ''alert(1)'' \<and>
   isNumberString ''alert(1)'' \<and>
   getSymbolForToken [''f''] ''alert(1)'' = ''alert(1)'' \<and>
   getSymbolForToken [] ''2)'' = ''2)'' \<and>
   generateFunction [''f''] ''ALWAYS:f(alert(1))'' =
     Some (Inr (''if(true){return(this.functions['f'](alert(1)));}else{return(true);}''))"
  by code_simp


subsection \<open>Unrecognised activation\<close>






subsection \<open>Registered names that an expression does not mention\<close>

text \<open>
  A registered name matters to the compiler only where it occurs in the text: an
  expression in which no registered name occurs compiles as it does with no function
  registered.
\<close>

lemma isFunctionToken_Nil: "\<not> isFunctionToken [] s"
  by (simp add: isFunctionToken_def)

lemma startsWith_take: "startsWith (take k s) p \<Longrightarrow> startsWith s p"
  unfolding startsWith_def
  by (metis append_eq_conv_conj append_take_drop_id length_take min.absorb2 nat_le_linear take_all take_take)

lemma isFunctionToken_substring:
  assumes "\<forall>i. \<not> isFunctionToken reg (drop i text)"
  shows "\<not> isFunctionToken reg (substring text a b)"
proof
  assume "isFunctionToken reg (substring text a b)"
  then obtain name where name: "name \<in> set reg"
    and "startsWith (substring text a b) name"
    by (auto simp: isFunctionToken_def list_ex_iff)
  then obtain k l where "startsWith (take k (drop l text)) name"
    by (auto simp: substring_def Let_def)
  then have "startsWith (drop l text) name" by (rule startsWith_take)
  with name have "isFunctionToken reg (drop l text)"
    by (auto simp: isFunctionToken_def list_ex_iff)
  with assms show False by blast
qed

lemma getSymbolForToken_unregistered:
  assumes "\<not> isFunctionToken reg token"
  shows "getSymbolForToken reg token = getSymbolForToken [] token"
  using assms
  by (simp add: getSymbolForToken.simps [of reg] getSymbolForToken.simps [of "[]"]
        isStatementToken_def isFunctionToken_Nil)

lemma nextEndIndex_unregistered:
  assumes "\<forall>i. \<not> isFunctionToken reg (drop i trimmed)"
  shows "nextEndIndex reg data trimmed startIndex endIndex
           = nextEndIndex [] data trimmed startIndex endIndex"
  using assms by (simp add: nextEndIndex_def substringFrom_def isFunctionToken_Nil split: option.splits)

lemma tokenLoop_unregistered:
  assumes "\<forall>i. \<not> isFunctionToken reg (drop i trimmed)"
  shows "tokenLoop reg data trimmed tokens startIndex endIndex iterations
           = tokenLoop [] data trimmed tokens startIndex endIndex iterations"
proof (induction "1001 - iterations" arbitrary: tokens startIndex endIndex iterations)
  case 0
  then have "iterations > 1000" by simp
  then show ?case
    by (subst tokenLoop.simps, subst (2) tokenLoop.simps)
       (simp add: nextEndIndex_unregistered [OF assms] Let_def split: sum.splits)
next
  case (Suc n)
  then have "n = 1001 - Suc iterations" by simp
  note IH = Suc.hyps(1) [OF this]
  show ?case
    by (subst tokenLoop.simps, subst (2) tokenLoop.simps)
       (simp add: nextEndIndex_unregistered [OF assms] Let_def IH split: sum.splits)
qed

lemma tokenLoop_tokens:
  "tokenLoop reg data trimmed tokens startIndex endIndex iterations = Some (Inr toks) \<Longrightarrow>
     t \<in> set toks \<Longrightarrow> t \<in> set tokens \<or> (\<exists>a b. t = substring trimmed a b)"
proof (induction "1001 - iterations" arbitrary: tokens startIndex endIndex iterations)
  case 0
  then have "iterations > 1000" by simp
  with "0.prems" show ?case
    by (subst (asm) tokenLoop.simps) (simp add: Let_def split: sum.splits)
next
  case (Suc n)
  then have n: "n = 1001 - (iterations + 1)" and it: "iterations \<le> 1000" by simp_all
  from Suc.prems(1) obtain e' where
    e': "nextEndIndex reg data trimmed startIndex endIndex = Inr e'"
    by (subst (asm) tokenLoop.simps) (auto split: sum.splits)
  show ?case
  proof (cases "e' \<ge> length trimmed")
    case True
    with Suc.prems(1) e' it have "toks = tokens @ [substring trimmed startIndex e']"
      by (subst (asm) tokenLoop.simps) (simp add: Let_def)
    with Suc.prems(2) show ?thesis by auto
  next
    case False
    with Suc.prems(1) e' it have
      "tokenLoop reg data trimmed (tokens @ [substring trimmed startIndex e']) e' e' (iterations + 1)
         = Some (Inr toks)"
      by (subst (asm) tokenLoop.simps) (simp add: Let_def)
    from Suc.hyps(1) [OF n this Suc.prems(2)] show ?thesis by auto
  qed
qed

lemma generateConditionalString_unregistered:
  assumes "\<forall>i. \<not> isFunctionToken reg (drop i (stripSpaces data))"
  shows "generateConditionalString reg data = generateConditionalString [] data"
proof -
  have loop: "tokenize reg data = tokenize [] data"
    unfolding tokenize_def by (rule tokenLoop_unregistered [OF assms])
  show ?thesis
  proof (cases "tokenize [] data")
    case None
    with loop show ?thesis by (simp add: generateConditionalString_def)
  next
    case (Some r)
    show ?thesis
    proof (cases r)
      case (Inl e)
      with Some loop show ?thesis by (simp add: generateConditionalString_def)
    next
      case (Inr toks)
      have "getSymbolForToken reg t = getSymbolForToken [] t" if "t \<in> set toks" for t
      proof -
        from Some Inr that obtain a b where "t = substring (stripSpaces data) a b"
          unfolding tokenize_def by (auto dest: tokenLoop_tokens)
        with assms have "\<not> isFunctionToken reg t"
          by (simp add: isFunctionToken_substring)
        then show ?thesis by (rule getSymbolForToken_unregistered)
      qed
      then have "getStringFromTokens reg toks = getStringFromTokens [] toks"
        by (simp add: getStringFromTokens_def cong: map_cong)
      with Some Inr loop show ?thesis by (simp add: generateConditionalString_def)
    qed
  qed
qed


lemma unmentioned_names:
  assumes "identifierNames reg" "noLetters text"
  shows "\<not> isFunctionToken reg (drop i text)"
proof
  assume "isFunctionToken reg (drop i text)"
  then obtain name where name: "name \<in> set reg" "startsWith (drop i text) name"
    by (auto simp: isFunctionToken_def list_ex_iff)
  with assms(1) have ne: "name \<noteq> []" and letter: "isLetterChar (hd name)"
    by (auto simp: identifierNames_def list_all_iff)
  from name(2) have "take (length name) (drop i text) = name"
    by (simp add: startsWith_def)
  with ne have "hd name \<in> set (drop i text)"
    by (metis hd_in_set in_set_takeD)
  then have "hd name \<in> set text" by (meson in_set_dropD)
  with assms(2) letter show False by (auto simp: noLetters_def list_all_iff)
qed

lemma noLetters_stripSpaces: "noLetters s \<Longrightarrow> noLetters (stripSpaces s)"
  by (simp add: noLetters_def stripSpaces_def list_all_iff)

lemma generateConditionalString_noLetters:
  assumes "identifierNames reg" "noLetters data"
  shows "generateConditionalString reg data = generateConditionalString [] data"
  using unmentioned_names [OF assms(1) noLetters_stripSpaces [OF assms(2)]]
  by (intro generateConditionalString_unregistered) blast

lemma generateFunction_always_noLetters:
  assumes "identifierNames reg"
    and "getSplitTokens assertion = Inr tokens"
    and "startsWith (trim (tokens ! 0)) ''ALWAYS''"
    and "noLetters (trim (tokens ! 1))"
  shows "generateFunction reg assertion = generateFunction [] assertion"
  using assms generateConditionalString_noLetters [OF assms(1) assms(4)]
  by (simp add: generateFunction_def activationStringOf_def Let_def)


subsection \<open>Evaluation of a compiled constraint\<close>

lemma scanToClose_balanced:
  "balancedFrom a depth quoted \<Longrightarrow> scanToClose (a @ CHR '')'' # r) depth quoted = Some (a, r)"
proof (induction a arbitrary: depth quoted)
  case Nil
  then show ?case by simp
next
  case (Cons c cs)
  let ?d = "if quoted then depth else if c = CHR ''('' then Suc depth
            else if c = CHR '')'' then depth - 1 else depth"
  let ?q = "if c = CHR 0x27 then \<not> quoted else quoted"
  from Cons.prems have stop: "\<not> (\<not> quoted \<and> c = CHR '')'' \<and> depth = 0)"
    and rest: "balancedFrom cs ?d ?q"
    by (auto split: if_splits)
  from Cons.IH [OF rest] have "scanToClose (cs @ CHR '')'' # r) ?d ?q = Some (cs, r)" .
  with stop show ?case by simp
qed

lemma jsRunFunction_functionString:
  assumes "balanced act" "balanced cond"
  shows "jsRunFunction fs model state (functionString act cond)
           = ifElse (jsEvalString fs model state act) (jsEvalString fs model state cond)"
proof -
  define tail where "tail = '';}else{return(true);}''"
  define rest where "rest = ''{return('' @ cond @ CHR '')'' # tail"
  have body: "functionString act cond = ''if('' @ act @ CHR '')'' # rest"
    by (simp add: functionString_def rest_def tail_def)
  have start: "startsWith (''if('' @ act @ CHR '')'' # rest) ''if(''"
    and dropped: "drop 3 (''if('' @ act @ CHR '')'' # rest) = act @ CHR '')'' # rest"
    by (simp_all add: startsWith_def)
  have 1: "scanToClose (act @ CHR '')'' # rest) 0 False = Some (act, rest)"
    using assms(1) unfolding balanced_def by (rule scanToClose_balanced)
  have start': "startsWith rest ''{return(''"
    and dropped': "drop 8 rest = cond @ CHR '')'' # tail"
    by (simp_all add: startsWith_def rest_def)
  have 2: "scanToClose (cond @ CHR '')'' # tail) 0 False = Some (cond, tail)"
    using assms(2) unfolding balanced_def by (rule scanToClose_balanced)
  show ?thesis
    unfolding body jsRunFunction_def
    by (simp only: start dropped 1 start' dropped' 2 tail_def [symmetric]
          option.case prod.case not_True_eq_False if_False refl not_not simp_thms)
qed


lemma jsEvalString_true: "jsEvalString fs model state ''true'' = Returns (JBool True)"
proof -
  have "jsLex ''true'' = Some [TLit (JBool True)]" by code_simp
  then show ?thesis by (simp add: jsEvalString_def jsParseExpr_def)
qed

lemma balanced_true: "balanced ''true''"
  by code_simp

lemma ifElse_true: "ifElse (Returns (JBool True)) c = c"
  by (simp add: ifElse_def)

lemma jsRunFunction_always:
  "balanced cond \<Longrightarrow>
     jsRunFunction fs model state (functionString ''true'' cond) = jsEvalString fs model state cond"
  by (simp add: jsRunFunction_functionString balanced_true jsEvalString_true ifElse_true)


lemma trim_ALWAYS: "trim ''ALWAYS'' = ''ALWAYS''"
  by code_simp









subsection \<open>Precedence and paths\<close>

lemma precedence_three_operands:
  "jsParseExpr [TLit a, TOp o1, TLit b, TOp o2, TLit c] =
     Some (if precedence o2 \<le> precedence o1
           then EBin o2 (EBin o1 (ELit a) (ELit b)) (ELit c)
           else EBin o1 (ELit a) (EBin o2 (ELit b) (ELit c)))"
  by (cases o1; cases o2) (simp_all add: jsParseExpr_def)

lemma brackets_group_left:
  "jsParseExpr [TOpen, TLit a, TOp o1, TLit b, TClose, TOp o2, TLit c] =
     Some (EBin o2 (EBin o1 (ELit a) (ELit b)) (ELit c))"
  by (simp add: jsParseExpr_def)

lemma brackets_group_right:
  "jsParseExpr [TLit a, TOp o1, TOpen, TLit b, TOp o2, TLit c, TClose] =
     Some (EBin o1 (ELit a) (EBin o2 (ELit b) (ELit c)))"
  by (simp add: jsParseExpr_def)

lemma precedence_compiled:
  "generateFunction [] ''ALWAYS:2 + 3 * 4 == 14'' = Some (Inr (functionString ''true'' ''2+3*4==14''))"
  "generateFunction [] ''ALWAYS:(2 + 3) * 4 == 20'' = Some (Inr (functionString ''true'' ''(2+3)*4==20''))"
  "generateFunction [] ''ALWAYS:10 - 4 - 3 == 3'' = Some (Inr (functionString ''true'' ''10-4-3==3''))"
  by code_simp+

lemma precedence_lexed:
  "jsLex ''2+3*4==14'' = Some [TLit (JNum 2), TOp OAdd, TLit (JNum 3), TOp OMul, TLit (JNum 4),
     TOp OEq, TLit (JNum 14)]"
  "jsLex ''(2+3)*4==20'' = Some [TOpen, TLit (JNum 2), TOp OAdd, TLit (JNum 3), TClose, TOp OMul,
     TLit (JNum 4), TOp OEq, TLit (JNum 20)]"
  "jsLex ''10-4-3==3'' = Some [TLit (JNum 10), TOp OSub, TLit (JNum 4), TOp OSub, TLit (JNum 3),
     TOp OEq, TLit (JNum 3)]"
  by code_simp+

lemma precedence_balanced:
  "balanced ''2+3*4==14''" "balanced ''(2+3)*4==20''" "balanced ''10-4-3==3''"
  by code_simp+

lemmas eval_simps = jsEvalString_def jsParseExpr_def binary_def arithmetic_def plus_def
  number_def safeInteger_def fromBool_def fromResult_def

lemma precedence_values:
  "jsEvalString fs model state ''2+3*4==14'' = Returns (JBool True)"
  "jsEvalString fs model state ''(2+3)*4==20'' = Returns (JBool True)"
  "jsEvalString fs model state ''10-4-3==3'' = Returns (JBool True)"
  by (simp_all add: precedence_lexed eval_simps)

lemma precedence_split:
  "getSplitTokens ''ALWAYS:2 + 3 * 4 == 14'' = Inr [''ALWAYS'', ''2 + 3 * 4 == 14'']"
  "getSplitTokens ''ALWAYS:(2 + 3) * 4 == 20'' = Inr [''ALWAYS'', ''(2 + 3) * 4 == 20'']"
  "getSplitTokens ''ALWAYS:10 - 4 - 3 == 3'' = Inr [''ALWAYS'', ''10 - 4 - 3 == 3'']"
  "noLetters (trim ''2 + 3 * 4 == 14'')" "noLetters (trim ''(2 + 3) * 4 == 20'')"
  "noLetters (trim ''10 - 4 - 3 == 3'')" "noLetters ''(2 + 3) * 4 == 20''"
  by code_simp+

lemma precedence_any_registry:
  assumes "identifierNames reg"
  shows "generateFunction reg ''ALWAYS:2 + 3 * 4 == 14'' = generateFunction [] ''ALWAYS:2 + 3 * 4 == 14''"
    "generateFunction reg ''ALWAYS:(2 + 3) * 4 == 20'' = generateFunction [] ''ALWAYS:(2 + 3) * 4 == 20''"
    "generateFunction reg ''ALWAYS:10 - 4 - 3 == 3'' = generateFunction [] ''ALWAYS:10 - 4 - 3 == 3''"
    "generateConditionalString reg ''(2 + 3) * 4 == 20'' = generateConditionalString [] ''(2 + 3) * 4 == 20''"
  using assms
  by (simp_all add: generateFunction_always_noLetters [where tokens = "[''ALWAYS'', ''2 + 3 * 4 == 14'']"]
        generateFunction_always_noLetters [where tokens = "[''ALWAYS'', ''(2 + 3) * 4 == 20'']"]
        generateFunction_always_noLetters [where tokens = "[''ALWAYS'', ''10 - 4 - 3 == 3'']"]
        generateConditionalString_noLetters precedence_split trim_ALWAYS startsWith_def)

text \<open>
  C4. The compiler copies the tokens of an expression in their order, brackets included,
  and the evaluator applies the operator table: of two neighbouring operators the one
  that binds tighter is applied first, the left one at equal precedence, and a bracketed
  part is evaluated as a unit. So \<^verbatim>\<open>ALWAYS:2 + 3 * 4 == 14\<close> and
  \<^verbatim>\<open>ALWAYS:(2 + 3) * 4 == 20\<close> evaluate to \<^verbatim>\<open>true\<close> for every model and state, and so
  does \<^verbatim>\<open>ALWAYS:10 - 4 - 3 == 3\<close>, whatever functions are registered under names that
  start with a letter or an underscore.
\<close>

theorem operator_precedence:
  "(identifierNames reg \<longrightarrow>
      evaluateAssertion reg fs model state ''ALWAYS:2 + 3 * 4 == 14'' = Some (Inr (Returns (JBool True))) \<and>
      evaluateAssertion reg fs model state ''ALWAYS:(2 + 3) * 4 == 20'' = Some (Inr (Returns (JBool True))) \<and>
      evaluateAssertion reg fs model state ''ALWAYS:10 - 4 - 3 == 3'' = Some (Inr (Returns (JBool True))) \<and>
      generateConditionalString reg ''(2 + 3) * 4 == 20'' = Some (Inr ''(2+3)*4==20'')) \<and>
   jsParseExpr [TLit a, TOp o1, TLit b, TOp o2, TLit c] =
     Some (if precedence o2 \<le> precedence o1
           then EBin o2 (EBin o1 (ELit a) (ELit b)) (ELit c)
           else EBin o1 (ELit a) (EBin o2 (ELit b) (ELit c))) \<and>
   jsParseExpr [TOpen, TLit a, TOp o1, TLit b, TClose, TOp o2, TLit c] =
     Some (EBin o2 (EBin o1 (ELit a) (ELit b)) (ELit c)) \<and>
   jsParseExpr [TLit a, TOp o1, TOpen, TLit b, TOp o2, TLit c, TClose] =
     Some (EBin o1 (ELit a) (EBin o2 (ELit b) (ELit c)))"
proof -
  have "generateConditionalString [] ''(2 + 3) * 4 == 20'' = Some (Inr ''(2+3)*4==20'')"
    by code_simp
  then show ?thesis
    by (simp add: evaluateAssertion_def precedence_any_registry precedence_compiled
          jsRunFunction_always precedence_balanced precedence_values precedence_three_operands
          brackets_group_left brackets_group_right
        del: precedence.simps)
qed

lemma identifierNames_example: "identifierNames [''add'', ''mul'']"
  by code_simp

theorem operator_precedence_witness:
  "evaluateAssertion [''add'', ''mul''] Map.empty JNull JNull ''ALWAYS:2 + 3 * 4 == 14''
     = Some (Inr (Returns (JBool True))) \<and>
   jsParseExpr [TLit (JNum 2), TOp OAdd, TLit (JNum 3), TOp OMul, TLit (JNum 4)] =
     Some (EBin OAdd (ELit (JNum 2)) (EBin OMul (ELit (JNum 3)) (ELit (JNum 4)))) \<and>
   jsParseExpr [TLit (JNum 10), TOp OSub, TLit (JNum 4), TOp OSub, TLit (JNum 3)] =
     Some (EBin OSub (EBin OSub (ELit (JNum 10)) (ELit (JNum 4))) (ELit (JNum 3)))"
  using operator_precedence [of "[''add'', ''mul'']" Map.empty JNull JNull
      "JNum 2" OAdd "JNum 3" OMul "JNum 4"]
    operator_precedence [of "[''add'', ''mul'']" Map.empty JNull JNull
      "JNum 10" OSub "JNum 4" OSub "JNum 3"]
    identifierNames_example
  by simp

lemma path_compiled:
  "generateFunction [] ''ALWAYS:$a.b == 5'' = Some (Inr (functionString ''true'' ''this.model.a.b==5''))"
  "generateFunction [] ''ALWAYS:$a.c == 5'' = Some (Inr (functionString ''true'' ''this.model.a.c==5''))"
  "generateFunction [] ''ALWAYS:$x.y == 5'' = Some (Inr (functionString ''true'' ''this.model.x.y==5''))"
  by code_simp+

lemma path_lexed:
  "jsLex ''this.model.a.b==5'' = Some [TModel [''a'', ''b''], TOp OEq, TLit (JNum 5)]"
  "jsLex ''this.model.a.c==5'' = Some [TModel [''a'', ''c''], TOp OEq, TLit (JNum 5)]"
  "jsLex ''this.model.x.y==5'' = Some [TModel [''x'', ''y''], TOp OEq, TLit (JNum 5)]"
  by code_simp+

lemma path_balanced:
  "balanced ''this.model.a.b==5''" "balanced ''this.model.a.c==5''" "balanced ''this.model.x.y==5''"
  by code_simp+

text \<open>
  C2. With the model \<^verbatim>\<open>{a:{b:5}}\<close> the two assertions of the specification evaluate as
  it says: \<^verbatim>\<open>$a.b == 5\<close> to \<^verbatim>\<open>true\<close>, and \<^verbatim>\<open>$a.c == 5\<close>, whose last segment is
  missing, to \<^verbatim>\<open>false\<close>. A path whose first segment is missing is different: the
  condition \<^verbatim>\<open>$x.y == 5\<close> compiles to the property chain \<^verbatim>\<open>this.model.x.y\<close>, which reads
  a property of \<^verbatim>\<open>undefined\<close>, and the evaluation throws. \<^verbatim>\<open>getObjectValue\<close>, which
  message rendering uses for the same paths, catches that error and returns
  \<^verbatim>\<open>UNDEFINED_VALUE\<close>.
\<close>

theorem missing_path_in_constraint:
  "evaluateAssertion [] fs (JObj [(''a'', JObj [(''b'', JNum 5)])]) state ''ALWAYS:$a.b == 5''
     = Some (Inr (Returns (JBool True))) \<and>
   evaluateAssertion [] fs (JObj [(''a'', JObj [(''b'', JNum 5)])]) state ''ALWAYS:$a.c == 5''
     = Some (Inr (Returns (JBool False))) \<and>
   evaluateAssertion [] fs (JObj [(''a'', JObj [(''b'', JNum 5)])]) state ''ALWAYS:$x.y == 5''
     = Some (Inr (Throws (TypeError ''Cannot read properties of undefined (reading y)''))) \<and>
   generateFunction [] ''ALWAYS:$x.y == 5''
     = Some (Inr ''if(true){return(this.model.x.y==5);}else{return(true);}'') \<and>
   getObjectValue (JObj [(''a'', JObj [(''b'', JNum 5)])]) ''x.y'' = JStr ''UNDEFINED_VALUE'' \<and>
   getObjectValue (JObj [(''a'', JObj [(''b'', JNum 5)])]) ''a.c'' = JUndefined \<and>
   getObjectValue (JObj [(''a'', JObj [(''b'', JNum 5)])]) ''a.b'' = JNum 5"
proof -
  let ?m = "JObj [(''a'', JObj [(''b'', JNum 5)])]"
  have looked_up: "getObjectValue ?m ''x.y'' = JStr ''UNDEFINED_VALUE''"
    "getObjectValue ?m ''a.c'' = JUndefined"
    "getObjectValue ?m ''a.b'' = JNum 5"
    by code_simp+
  have body_text: "generateFunction [] ''ALWAYS:$x.y == 5''
     = Some (Inr ''if(true){return(this.model.x.y==5);}else{return(true);}'')"
    by code_simp
  have runs: "evaluateAssertion [] fs ?m state ''ALWAYS:$a.b == 5'' = Some (Inr (Returns (JBool True)))"
    "evaluateAssertion [] fs ?m state ''ALWAYS:$a.c == 5'' = Some (Inr (Returns (JBool False)))"
    "evaluateAssertion [] fs ?m state ''ALWAYS:$x.y == 5''
       = Some (Inr (Throws (TypeError ''Cannot read properties of undefined (reading y)'')))"
    by (simp_all add: evaluateAssertion_def path_compiled jsRunFunction_always path_balanced
          path_lexed eval_simps)
  from looked_up body_text runs show ?thesis by (intro conjI)
qed


subsection \<open>Message rendering\<close>













end
